theory Spec2Isabelle
  imports Main
begin

section \<open>RoleService: channel-scoped roles and permissions\<close>

text \<open>
  A shallow embedding of \<^verbatim>\<open>packages/core/src/service/services/role.service.ts\<close>.
  Every method of the class is a function of the same name. Promises are run to
  completion in program order, so an \<^verbatim>\<open>async\<close> method is a function from the store to
  its outcome and the store it leaves behind; a thrown error is the \<open>Inl\<close> branch of a sum.
\<close>

subsection \<open>Identifiers and errors\<close>

text \<open>
  \<^verbatim>\<open>ID\<close> is \<^verbatim>\<open>string | number\<close>. The source tests identifiers for truthiness
  (\<^verbatim>\<open>!ctx.activeUserId\<close>, \<^verbatim>\<open>input.channelId ? .. : ..\<close>): an absent identifier, the
  number zero and the empty string are falsy.
\<close>

datatype ID = IdNumber nat | IdString string

fun truthy :: "ID \<Rightarrow> bool" where
  "truthy (IdNumber n) = (n \<noteq> 0)"
| "truthy (IdString s) = (s \<noteq> [])"

text \<open>The identifier behind an optional identifier that passes the truthiness test.\<close>

definition present :: "ID option \<Rightarrow> ID option" where
  "present x = (case x of None \<Rightarrow> None | Some i \<Rightarrow> if truthy i then Some i else None)"

text \<open>
  The error classes of \<^verbatim>\<open>common/error/errors\<close>, with the arguments the source
  constructs them with: a message key and its variables, or an entity name and an id.
\<close>

datatype error =
    EntityNotFoundError string ID
  | ForbiddenError
  | InternalServerError string "(string \<times> string) list"
  | UserInputError string "(string \<times> string) list"

subsection \<open>Imported declarations\<close>

text \<open>
  The \<^verbatim>\<open>Permission\<close> enum (generated-types) and the role constants (shared-constants) are
  imported by the source and are not part of it. They are parameters of the model:
  \<open>Permission_values\<close> is \<^verbatim>\<open>Object.values(Permission)\<close>, and the three enum members the
  source names are fields of their own.
\<close>

record imported =
  Permission_values :: "string list"
  Permission_Authenticated :: string
  Permission_Owner :: string
  Permission_CreateAdministrator :: string
  SUPER_ADMIN_ROLE_CODE :: string
  SUPER_ADMIN_ROLE_DESCRIPTION :: string
  CUSTOMER_ROLE_CODE :: string
  CUSTOMER_ROLE_DESCRIPTION :: string

text \<open>
  A member of a TypeScript enum is one of the enum's values. The enum declares
  \<^verbatim>\<open>Authenticated\<close> and \<^verbatim>\<open>Owner\<close> as different members, and the two reserved role codes
  differ.
\<close>

definition enum_members :: "imported \<Rightarrow> bool" where
  "enum_members K \<longleftrightarrow>
     Permission_Authenticated K \<in> set (Permission_values K) \<and>
     Permission_Owner K \<in> set (Permission_values K) \<and>
     Permission_CreateAdministrator K \<in> set (Permission_values K)"

definition imported_distinct :: "imported \<Rightarrow> bool" where
  "imported_distinct K \<longleftrightarrow>
     Permission_Authenticated K \<noteq> Permission_Owner K \<and>
     SUPER_ADMIN_ROLE_CODE K \<noteq> CUSTOMER_ROLE_CODE K"

subsection \<open>Entities\<close>

record Channel =
  channel_id :: ID
  channel_code :: string

text \<open>
  A \<^verbatim>\<open>Role\<close> entity. \<open>role_id\<close> is \<open>None\<close> on an entity that was built with
  \<^verbatim>\<open>new Role(..)\<close> and never saved. \<open>channels\<close> is \<open>None\<close> when the relation was not
  loaded (\<^verbatim>\<open>getRoleByCode\<close> asks for no relations).
\<close>

record Role =
  role_id :: "ID option"
  code :: string
  description :: string
  permissions :: "string list"
  channels :: "Channel list option"

record User =
  user_id :: ID
  roles :: "Role list"

text \<open>A stored user row refers to its roles by id (the join table of the relation).\<close>

record UserRow =
  row_id :: ID
  row_role_ids :: "ID list"

record RequestContext =
  activeUserId :: "ID option"
  channel :: Channel

record CreateRoleInput =
  create_channelId :: "ID option"
  create_code :: string
  create_description :: string
  create_permissions :: "string list"

text \<open>
  \<^verbatim>\<open>UpdateRoleInput\<close>: every field but the id is optional; \<open>None\<close> is an absent
  (\<^verbatim>\<open>undefined\<close>) field.
\<close>

record UpdateRoleInput =
  update_id :: ID
  update_code :: "string option"
  update_description :: "string option"
  update_permissions :: "string list option"

subsection \<open>The store\<close>

text \<open>
  Modelled from the spec: the storage layer (the TypeORM connection) and the channel
  service are collaborators outside the source. The spec says: \<^verbatim>\<open>find\<close> returns the
  entity or nothing, with the named relations loaded; \<^verbatim>\<open>save\<close> is create-or-update by
  identifier and returns the persisted entity; \<^verbatim>\<open>getDefaultChannel\<close> always succeeds.
  The store holds the table of roles, of users and of channels, the default channel, and
  the number of \<^verbatim>\<open>save\<close> calls made so far. A store that an operation leaves equal to
  the one it started from has seen no write.
\<close>

record Store =
  role_table :: "Role list"
  user_table :: "UserRow list"
  channel_table :: "Channel list"
  default_channel :: Channel
  writes :: nat

text \<open>Every stored role has a primary key.\<close>

definition roles_keyed :: "Store \<Rightarrow> bool" where
  "roles_keyed s \<longleftrightarrow> list_all (\<lambda>r. role_id r \<noteq> None) (role_table s)"

text \<open>\<^verbatim>\<open>findOne(roleId)\<close>: the role with this id, its channels loaded.\<close>

definition findOne :: "Store \<Rightarrow> ID \<Rightarrow> Role option" where
  "findOne s roleId = find (\<lambda>r. role_id r = Some roleId) (role_table s)"

text \<open>\<^verbatim>\<open>getRoleByCode(code)\<close>: the first role with this code, no relation loaded.\<close>

definition getRoleByCode :: "Store \<Rightarrow> string \<Rightarrow> Role option" where
  "getRoleByCode s c =
     map_option (\<lambda>r. r\<lparr>channels := None\<rparr>) (find (\<lambda>r. code r = c) (role_table s))"

text \<open>
  The key a new row gets: one more than every numeric key in the table (and at least 1),
  as an auto-increment column gives.
\<close>

definition fresh_id :: "Role list \<Rightarrow> ID" where
  "fresh_id rows =
     IdNumber (fold (\<lambda>r m. case role_id r of Some (IdNumber n) \<Rightarrow> max m (Suc n) | _ \<Rightarrow> m) rows 1)"

text \<open>
  A row written by \<^verbatim>\<open>save\<close>: the entity's columns; a relation that is not loaded on the
  entity is left as it is stored (\<open>old\<close>).
\<close>

definition stored_row :: "Channel list option \<Rightarrow> ID \<Rightarrow> Role \<Rightarrow> Role" where
  "stored_row old i r =
     r\<lparr>role_id := Some i,
       channels := (case channels r of Some cs \<Rightarrow> Some cs | None \<Rightarrow> old)\<rparr>"

text \<open>
  \<^verbatim>\<open>save(role)\<close>: create-or-update by identifier. An entity without an id, or with an id
  that no row has, is inserted; otherwise the rows with its id are overwritten. The
  persisted entity is returned, and the call is counted.
\<close>

definition save :: "Store \<Rightarrow> Role \<Rightarrow> Role \<times> Store" where
  "save s r =
     (case role_id r of
        None \<Rightarrow>
          (let row = stored_row (Some []) (fresh_id (role_table s)) r
           in (row, s\<lparr>role_table := role_table s @ [row], writes := Suc (writes s)\<rparr>))
      | Some i \<Rightarrow>
          (case findOne s i of
             None \<Rightarrow>
               (let row = stored_row (Some []) i r
                in (row, s\<lparr>role_table := role_table s @ [row], writes := Suc (writes s)\<rparr>))
           | Some old \<Rightarrow>
               (let row = stored_row (channels old) i r
                in (row, s\<lparr>role_table :=
                             map (\<lambda>x. if role_id x = Some i then row else x) (role_table s),
                           writes := Suc (writes s)\<rparr>))))"

subsection \<open>Helpers the source imports\<close>

text \<open>
  Modelled from the spec: \<^verbatim>\<open>unique\<close> (common/lib/unique) is not part of the source. The
  spec says of its result: duplicates removed. The first occurrence of each element is
  kept.
\<close>

fun unique :: "'a list \<Rightarrow> 'a list" where
  "unique [] = []"
| "unique (x # xs) = x # unique (filter (\<lambda>y. y \<noteq> x) xs)"

text \<open>
  Modelled from the spec: \<^verbatim>\<open>getEntityOrThrow\<close> (helpers/utils/get-entity-or-throw) is not
  part of the source. The spec says: the lookup fails with a not-found error naming the
  entity kind when the entity does not exist. \<open>found\<close> is the outcome of the lookup.
\<close>

definition getEntityOrThrow :: "string \<Rightarrow> 'a option \<Rightarrow> ID \<Rightarrow> error + 'a" where
  "getEntityOrThrow entityName found i =
     (case found of None \<Rightarrow> Inl (EntityNotFoundError entityName i) | Some e \<Rightarrow> Inr e)"

text \<open>
  Modelled from the spec: \<^verbatim>\<open>assertFound\<close> (common/utils) is not part of the source. The
  spec says of the last step of \<^verbatim>\<open>update\<close>: re-read and return the stored value; a
  value that is not there is an internal error.
\<close>

definition assertFound :: "'a option \<Rightarrow> error + 'a" where
  "assertFound found =
     (case found of None \<Rightarrow> Inl (InternalServerError ''error.entity-not-found'' [])
      | Some e \<Rightarrow> Inr e)"

text \<open>
  Modelled from the spec: \<^verbatim>\<open>idsAreEqual\<close> (common/utils) is not part of the source;
  identifiers are opaque and compared for equality.
\<close>

definition idsAreEqual :: "ID \<Rightarrow> ID \<Rightarrow> bool" where
  "idsAreEqual a b \<longleftrightarrow> a = b"

text \<open>
  Modelled from the spec: \<^verbatim>\<open>patchEntity\<close> (helpers/utils/patch-entity) is not part of the
  source. The spec says: only fields present in the input overwrite the corresponding role
  fields; fields absent from the input are left untouched. The patch that \<^verbatim>\<open>update\<close>
  builds has the three keys \<^verbatim>\<open>code\<close>, \<^verbatim>\<open>description\<close> and \<^verbatim>\<open>permissions\<close>.
\<close>

record RolePatch =
  patch_code :: "string option"
  patch_description :: "string option"
  patch_permissions :: "string list option"

definition patchEntity :: "Role \<Rightarrow> RolePatch \<Rightarrow> Role" where
  "patchEntity role p =
     role\<lparr>code := (case patch_code p of None \<Rightarrow> code role | Some c \<Rightarrow> c),
          description := (case patch_description p of None \<Rightarrow> description role | Some d \<Rightarrow> d),
          permissions := (case patch_permissions p of None \<Rightarrow> permissions role | Some ps \<Rightarrow> ps)\<rparr>"

text \<open>
  Modelled from the spec: \<^verbatim>\<open>getUserChannelsPermissions\<close>
  (helpers/utils/get-user-channels-permissions) is not part of the source. The spec says:
  for a user with roles and their channels loaded, one entry per channel, holding the
  union of the permissions of every role of the user that is assigned to that channel.
\<close>

record UserChannelPermissions =
  ucp_id :: ID
  ucp_permissions :: "string list"

definition channels_of :: "Role \<Rightarrow> Channel list" where
  "channels_of r = (case channels r of None \<Rightarrow> [] | Some cs \<Rightarrow> cs)"

definition getUserChannelsPermissions :: "User \<Rightarrow> UserChannelPermissions list" where
  "getUserChannelsPermissions user =
     map (\<lambda>c. \<lparr>ucp_id = c,
               ucp_permissions =
                 unique (concat (map permissions
                   (filter (\<lambda>r. c \<in> set (map channel_id (channels_of r))) (roles user))))\<rparr>)
       (unique (concat (map (\<lambda>r. map channel_id (channels_of r)) (roles user))))"

text \<open>
  The two lookups that the source hands to \<^verbatim>\<open>getEntityOrThrow\<close>: a user with the
  relations \<^verbatim>\<open>roles\<close> and \<^verbatim>\<open>roles.channels\<close> loaded, and a channel.
\<close>

definition load_User :: "Store \<Rightarrow> UserRow \<Rightarrow> User" where
  "load_User s row =
     \<lparr>user_id = row_id row,
      roles = filter (\<lambda>r. role_id r \<in> set (map Some (row_role_ids row))) (role_table s)\<rparr>"

definition find_User :: "Store \<Rightarrow> ID \<Rightarrow> User option" where
  "find_User s userId =
     map_option (load_User s) (find (\<lambda>row. row_id row = userId) (user_table s))"

definition find_Channel :: "Store \<Rightarrow> ID \<Rightarrow> Channel option" where
  "find_Channel s channelId = find (\<lambda>c. channel_id c = channelId) (channel_table s)"

subsection \<open>The service\<close>

definition getSuperAdminRole :: "imported \<Rightarrow> Store \<Rightarrow> error + Role" where
  "getSuperAdminRole K s =
     (case getRoleByCode s (SUPER_ADMIN_ROLE_CODE K) of
        None \<Rightarrow> Inl (InternalServerError ''error.super-admin-role-not-found'' [])
      | Some role \<Rightarrow> Inr role)"

definition getCustomerRole :: "imported \<Rightarrow> Store \<Rightarrow> error + Role" where
  "getCustomerRole K s =
     (case getRoleByCode s (CUSTOMER_ROLE_CODE K) of
        None \<Rightarrow> Inl (InternalServerError ''error.customer-role-not-found'' [])
      | Some role \<Rightarrow> Inr role)"

definition getAllPermissions :: "imported \<Rightarrow> string list" where
  "getAllPermissions K = Permission_values K"

definition userHasPermissionOnChannel :: "Store \<Rightarrow> ID \<Rightarrow> ID \<Rightarrow> string \<Rightarrow> error + bool" where
  "userHasPermissionOnChannel s userId channelId permission =
     (case getEntityOrThrow ''User'' (find_User s userId) userId of
        Inl e \<Rightarrow> Inl e
      | Inr user \<Rightarrow>
          (case find (\<lambda>c. idsAreEqual (ucp_id c) channelId) (getUserChannelsPermissions user) of
             None \<Rightarrow> Inr False
           | Some ch \<Rightarrow> Inr (permission \<in> set (ucp_permissions ch))))"

text \<open>The \<^verbatim>\<open>for\<close> loop of \<^verbatim>\<open>checkPermissionsAreValid\<close>, which throws at the first miss.\<close>

fun checkPermissionsAreValid_loop :: "string list \<Rightarrow> string list \<Rightarrow> error + unit" where
  "checkPermissionsAreValid_loop allPermissions [] = Inr ()"
| "checkPermissionsAreValid_loop allPermissions (permission # rest) =
     (if permission \<notin> set allPermissions
      then Inl (UserInputError ''error.permission-invalid'' [(''permission'', permission)])
      else checkPermissionsAreValid_loop allPermissions rest)"

definition checkPermissionsAreValid :: "imported \<Rightarrow> string list option \<Rightarrow> error + unit" where
  "checkPermissionsAreValid K perms =
     (case perms of
        None \<Rightarrow> Inr ()
      | Some ps \<Rightarrow> checkPermissionsAreValid_loop (getAllPermissions K) ps)"

definition createRoleForChannel ::
  "imported \<Rightarrow> Store \<Rightarrow> CreateRoleInput \<Rightarrow> Channel \<Rightarrow> Role \<times> Store" where
  "createRoleForChannel K s input ch =
     save s \<lparr>role_id = None,
             code = create_code input,
             description = create_description input,
             permissions = unique (Permission_Authenticated K # create_permissions input),
             channels = Some [ch]\<rparr>"

definition create ::
  "imported \<Rightarrow> Store \<Rightarrow> RequestContext \<Rightarrow> CreateRoleInput \<Rightarrow> (error + Role) \<times> Store" where
  "create K s ctx input =
     (case checkPermissionsAreValid K (Some (create_permissions input)) of
        Inl e \<Rightarrow> (Inl e, s)
      | Inr _ \<Rightarrow>
          (case (case present (create_channelId input) of
                   Some channelId \<Rightarrow>
                     getEntityOrThrow ''Channel'' (find_Channel s channelId) channelId
                 | None \<Rightarrow> Inr (channel ctx)) of
             Inl e \<Rightarrow> (Inl e, s)
           | Inr targetChannel \<Rightarrow>
               (case present (activeUserId ctx) of
                  None \<Rightarrow> (Inl ForbiddenError, s)
                | Some userId \<Rightarrow>
                    (case userHasPermissionOnChannel s userId
                            (channel_id targetChannel) (Permission_CreateAdministrator K) of
                       Inl e \<Rightarrow> (Inl e, s)
                     | Inr hasPermission \<Rightarrow>
                         if \<not> hasPermission then (Inl ForbiddenError, s)
                         else (case createRoleForChannel K s input targetChannel of
                                 (role, s') \<Rightarrow> (Inr role, s'))))))"

definition update :: "imported \<Rightarrow> Store \<Rightarrow> UpdateRoleInput \<Rightarrow> (error + Role) \<times> Store" where
  "update K s input =
     (case checkPermissionsAreValid K (update_permissions input) of
        Inl e \<Rightarrow> (Inl e, s)
      | Inr _ \<Rightarrow>
          (case findOne s (update_id input) of
             None \<Rightarrow> (Inl (EntityNotFoundError ''Role'' (update_id input)), s)
           | Some role \<Rightarrow>
               if code role = SUPER_ADMIN_ROLE_CODE K \<or> code role = CUSTOMER_ROLE_CODE K
               then (Inl (InternalServerError ''error.cannot-modify-role''
                            [(''roleCode'', code role)]), s)
               else
                 (let updatedRole = patchEntity role
                        \<lparr>patch_code = update_code input,
                         patch_description = update_description input,
                         patch_permissions =
                           (case update_permissions input of
                              Some ps \<Rightarrow> Some (unique (Permission_Authenticated K # ps))
                            | None \<Rightarrow> None)\<rparr>
                  in case save s updatedRole of
                       (_, s') \<Rightarrow> (assertFound (Option.bind (role_id role) (findOne s')), s'))))"

text \<open>
  The local \<^verbatim>\<open>allPermissions\<close> of \<^verbatim>\<open>ensureSuperAdminRoleExists\<close>:
  \<^verbatim>\<open>Object.values(Permission).filter(p => p !== Permission.Owner)\<close>.
\<close>

definition allPermissionsExceptOwner :: "imported \<Rightarrow> string list" where
  "allPermissionsExceptOwner K = filter (\<lambda>p. p \<noteq> Permission_Owner K) (Permission_values K)"

text \<open>
  \<^verbatim>\<open>ensureSuperAdminRoleExists\<close> and \<^verbatim>\<open>ensureCustomerRoleExists\<close>: the \<^verbatim>\<open>catch\<close>
  branch runs when the lookup of the role throws (\<^verbatim>\<open>save\<close> does not throw in this
  model).
\<close>

definition ensureSuperAdminRoleExists :: "imported \<Rightarrow> Store \<Rightarrow> Store" where
  "ensureSuperAdminRoleExists K s =
     (let allPermissions = allPermissionsExceptOwner K
      in case getSuperAdminRole K s of
           Inr superAdminRole \<Rightarrow>
             (let hasAllPermissions =
                    list_all (\<lambda>permission. permission \<in> set (permissions superAdminRole))
                      allPermissions
              in if \<not> hasAllPermissions
                 then snd (save s (superAdminRole\<lparr>permissions := allPermissions\<rparr>))
                 else s)
         | Inl err \<Rightarrow>
             snd (createRoleForChannel K s
                    \<lparr>create_channelId = None,
                     create_code = SUPER_ADMIN_ROLE_CODE K,
                     create_description = SUPER_ADMIN_ROLE_DESCRIPTION K,
                     create_permissions = allPermissions\<rparr>
                    (default_channel s)))"

definition ensureCustomerRoleExists :: "imported \<Rightarrow> Store \<Rightarrow> Store" where
  "ensureCustomerRoleExists K s =
     (case getCustomerRole K s of
        Inr _ \<Rightarrow> s
      | Inl err \<Rightarrow>
          snd (createRoleForChannel K s
                 \<lparr>create_channelId = None,
                  create_code = CUSTOMER_ROLE_CODE K,
                  create_description = CUSTOMER_ROLE_DESCRIPTION K,
                  create_permissions = [Permission_Authenticated K]\<rparr>
                 (default_channel s)))"

definition initRoles :: "imported \<Rightarrow> Store \<Rightarrow> Store" where
  "initRoles K s = ensureCustomerRoleExists K (ensureSuperAdminRoleExists K s)"

subsection \<open>Example data\<close>

text \<open>
  An installation with a small permission enum, the default channel and a second channel,
  the two system roles, one custom role, an administrator (user 1) and an editor (user 2).
\<close>

definition example_imported :: imported where
  "example_imported =
     \<lparr>Permission_values = [''Authenticated'', ''Owner'', ''CreateAdministrator'', ''ReadCatalog''],
      Permission_Authenticated = ''Authenticated'',
      Permission_Owner = ''Owner'',
      Permission_CreateAdministrator = ''CreateAdministrator'',
      SUPER_ADMIN_ROLE_CODE = ''SUPER_ADMIN'',
      SUPER_ADMIN_ROLE_DESCRIPTION = ''SuperAdmin'',
      CUSTOMER_ROLE_CODE = ''CUSTOMER'',
      CUSTOMER_ROLE_DESCRIPTION = ''Customer''\<rparr>"

definition channel_default :: Channel where
  "channel_default = \<lparr>channel_id = IdNumber 1, channel_code = ''default''\<rparr>"

definition channel_second :: Channel where
  "channel_second = \<lparr>channel_id = IdNumber 2, channel_code = ''second''\<rparr>"

definition role_super_admin :: Role where
  "role_super_admin =
     \<lparr>role_id = Some (IdNumber 1), code = ''SUPER_ADMIN'', description = ''SuperAdmin'',
      permissions = [''Authenticated'', ''CreateAdministrator'', ''ReadCatalog''],
      channels = Some [channel_default]\<rparr>"

definition role_customer :: Role where
  "role_customer =
     \<lparr>role_id = Some (IdNumber 2), code = ''CUSTOMER'', description = ''Customer'',
      permissions = [''Authenticated''], channels = Some [channel_default]\<rparr>"

definition role_editor :: Role where
  "role_editor =
     \<lparr>role_id = Some (IdNumber 3), code = ''editor'', description = ''Editor'',
      permissions = [''Authenticated'', ''ReadCatalog''], channels = Some [channel_default]\<rparr>"

definition example_store :: Store where
  "example_store =
     \<lparr>role_table = [role_super_admin, role_customer, role_editor],
      user_table = [\<lparr>row_id = IdNumber 1, row_role_ids = [IdNumber 1]\<rparr>,
                    \<lparr>row_id = IdNumber 2, row_role_ids = [IdNumber 3]\<rparr>],
      channel_table = [channel_default, channel_second],
      default_channel = channel_default,
      writes = 0\<rparr>"

text \<open>The same installation before its first start: no role yet.\<close>

definition empty_store :: Store where
  "empty_store = example_store\<lparr>role_table := []\<rparr>"

text \<open>
  An installation whose SuperAdmin role was provisioned under an older enum: it holds a
  permission that the enum no longer has and lacks the newer ones.
\<close>

definition legacy_store :: Store where
  "legacy_store =
     example_store\<lparr>role_table :=
       [role_super_admin\<lparr>permissions := [''Authenticated'', ''Legacy'']\<rparr>, role_customer]\<rparr>"

text \<open>A request without an acting user, and one made by the administrator.\<close>

definition ctx_anonymous :: RequestContext where
  "ctx_anonymous = \<lparr>activeUserId = None, channel = channel_default\<rparr>"

definition ctx_admin :: RequestContext where
  "ctx_admin = \<lparr>activeUserId = Some (IdNumber 1), channel = channel_default\<rparr>"

section \<open>Properties\<close>

subsection \<open>Helpers\<close>

lemma set_unique: "set (unique xs) = set xs"
  by (induction xs rule: unique.induct) auto

lemma distinct_unique: "distinct (unique xs)"
  by (induction xs rule: unique.induct) (auto simp: set_unique)

lemma loop_rejects_first:
  "find (\<lambda>p. p \<notin> set allP) ps = Some bad \<Longrightarrow>
   checkPermissionsAreValid_loop allP ps =
     Inl (UserInputError ''error.permission-invalid'' [(''permission'', bad)])"
  by (induction ps) (auto split: if_splits)

lemma find_invalid: "\<not> set ps \<subseteq> set allP \<Longrightarrow> \<exists>bad. find (\<lambda>p. p \<notin> set allP) ps = Some bad"
  by (cases "find (\<lambda>p. p \<notin> set allP) ps") (auto simp: find_None_iff)

lemma check_valid_iff:
  "checkPermissionsAreValid K perms = Inr () \<longleftrightarrow>
   (case perms of None \<Rightarrow> True | Some ps \<Rightarrow> set ps \<subseteq> set (Permission_values K))"
proof (cases perms)
  case None
  then show ?thesis by (simp add: checkPermissionsAreValid_def)
next
  case (Some ps)
  have "checkPermissionsAreValid_loop allP ps = Inr () \<longleftrightarrow> set ps \<subseteq> set allP" for allP
    by (induction ps) auto
  then show ?thesis using Some by (simp add: checkPermissionsAreValid_def getAllPermissions_def)
qed

text \<open>Lookups by id, before and after a \<^verbatim>\<open>save\<close> that overwrites a row.\<close>

lemma findOne_id: "findOne s i = Some r \<Longrightarrow> role_id r = Some i"
  by (auto simp: findOne_def find_Some_iff)

lemma findOne_in_table: "findOne s i = Some r \<Longrightarrow> r \<in> set (role_table s)"
  by (auto simp: findOne_def find_Some_iff)

lemma find_replaced:
  "find (\<lambda>x. role_id x = Some i) xs = Some old \<Longrightarrow> role_id row = Some i \<Longrightarrow>
   find (\<lambda>x. role_id x = Some i) (map (\<lambda>x. if role_id x = Some i then row else x) xs) = Some row"
  by (induction xs) (auto split: if_splits)

lemma save_existing:
  assumes "findOne s i = Some old" and "role_id r = Some i"
  shows "save s r =
     (stored_row (channels old) i r,
      s\<lparr>role_table := map (\<lambda>x. if role_id x = Some i then stored_row (channels old) i r else x)
                         (role_table s),
        writes := Suc (writes s)\<rparr>)"
  using assms by (simp add: save_def Let_def)

lemma findOne_after_save:
  assumes "findOne s i = Some old" and "role_id r = Some i"
  shows "findOne (snd (save s r)) i = Some (stored_row (channels old) i r)"
  using assms find_replaced[of i "role_table s" old "stored_row (channels old) i r"]
  by (simp add: save_existing findOne_def stored_row_def)

lemma getRoleByCode_None: "getRoleByCode s c = None \<longleftrightarrow> c \<notin> set (map code (role_table s))"
  by (auto simp: getRoleByCode_def find_None_iff)

text \<open>What a successful \<^verbatim>\<open>createRoleForChannel\<close>, \<^verbatim>\<open>create\<close> and \<^verbatim>\<open>update\<close> wrote.\<close>

lemma createRoleForChannel_eq:
  "createRoleForChannel K s cin ch =
     (\<lparr>role_id = Some (fresh_id (role_table s)), code = create_code cin,
       description = create_description cin,
       permissions = unique (Permission_Authenticated K # create_permissions cin),
       channels = Some [ch]\<rparr>,
      s\<lparr>role_table := role_table s @
           [\<lparr>role_id = Some (fresh_id (role_table s)), code = create_code cin,
             description = create_description cin,
             permissions = unique (Permission_Authenticated K # create_permissions cin),
             channels = Some [ch]\<rparr>],
        writes := Suc (writes s)\<rparr>)"
  by (simp add: createRoleForChannel_def save_def stored_row_def Let_def)

lemma create_Inr:
  assumes "create K s ctx cin = (Inr r, s')"
  shows "\<exists>ch. createRoleForChannel K s cin ch = (r, s')"
  using assms unfolding create_def
  by (auto split: sum.splits option.splits if_splits prod.splits)

lemma update_Inr:
  assumes "update K s uin = (Inr r, s')"
  shows "\<exists>role. findOne s (update_id uin) = Some role \<and>
           r = stored_row (channels role) (update_id uin)
                 (patchEntity role
                    \<lparr>patch_code = update_code uin, patch_description = update_description uin,
                     patch_permissions =
                       (case update_permissions uin of
                          Some ps \<Rightarrow> Some (unique (Permission_Authenticated K # ps))
                        | None \<Rightarrow> None)\<rparr>) \<and>
           findOne s' (update_id uin) = Some r"
proof -
  from assms obtain role where role: "findOne s (update_id uin) = Some role"
    unfolding update_def by (auto split: sum.splits option.splits if_splits prod.splits)
  let ?u = "patchEntity role
                    \<lparr>patch_code = update_code uin, patch_description = update_description uin,
                     patch_permissions =
                       (case update_permissions uin of
                          Some ps \<Rightarrow> Some (unique (Permission_Authenticated K # ps))
                        | None \<Rightarrow> None)\<rparr>"
  have id: "role_id role = Some (update_id uin)" using role by (rule findOne_id)
  then have uid: "role_id ?u = Some (update_id uin)" by (simp add: patchEntity_def)
  have after: "findOne (snd (save s ?u)) (update_id uin) =
      Some (stored_row (channels role) (update_id uin) ?u)"
    using role uid by (rule findOne_after_save)
  from assms role id have "s' = snd (save s ?u)"
    and "Inr r = assertFound (findOne s' (update_id uin))"
    unfolding update_def
    by (auto simp: Let_def split: sum.splits option.splits if_splits prod.splits)
  with after show ?thesis using role by (auto simp: assertFound_def)
qed

lemma unique_twice: "unique [a, a] = [a]"
  by simp

lemma list_all_unique_self: "list_all (\<lambda>p. p \<in> set (unique (a # xs))) xs"
  unfolding list_all_iff set_unique by simp

lemma list_all_mem: "list_all (\<lambda>p. p \<in> set ys) xs \<longleftrightarrow> set xs \<subseteq> set ys"
  by (auto simp: list_all_iff)

text \<open>A lookup by code after a \<^verbatim>\<open>save\<close> that overwrites the row found by that code.\<close>

lemma find_code_replaced:
  "find (\<lambda>x. code x = c) xs = Some old \<Longrightarrow> role_id old = Some i \<Longrightarrow> code row = c \<Longrightarrow>
   find (\<lambda>x. code x = c) (map (\<lambda>x. if role_id x = Some i then row else x) xs) = Some row"
  by (induction xs) (auto split: if_splits)

lemmas example_defs = example_imported_def example_store_def channel_default_def
  channel_second_def role_super_admin_def role_customer_def role_editor_def ctx_admin_def
  ctx_anonymous_def empty_store_def legacy_store_def

lemmas service_defs = create_def update_def checkPermissionsAreValid_def getAllPermissions_def
  present_def getEntityOrThrow_def find_Channel_def find_User_def load_User_def
  userHasPermissionOnChannel_def getUserChannelsPermissions_def channels_of_def idsAreEqual_def
  createRoleForChannel_def save_def stored_row_def fresh_id_def findOne_def patchEntity_def
  assertFound_def getRoleByCode_def getSuperAdminRole_def getCustomerRole_def
  allPermissionsExceptOwner_def ensureSuperAdminRoleExists_def ensureCustomerRoleExists_def
  initRoles_def

subsection \<open>The authorization query\<close>

lemma find_entry:
  "find (\<lambda>e. ucp_id e = c) (map (\<lambda>c. \<lparr>ucp_id = c, ucp_permissions = f c\<rparr>) cs) =
     (if c \<in> set cs then Some \<lparr>ucp_id = c, ucp_permissions = f c\<rparr> else None)"
  by (induction cs) auto

lemma permission_on_channel:
  "(case find (\<lambda>e. idsAreEqual (ucp_id e) c) (getUserChannelsPermissions user) of
      None \<Rightarrow> False | Some ch \<Rightarrow> p \<in> set (ucp_permissions ch)) \<longleftrightarrow>
   (\<exists>r \<in> set (roles user). c \<in> set (map channel_id (channels_of r)) \<and> p \<in> set (permissions r))"
  unfolding getUserChannelsPermissions_def idsAreEqual_def find_entry
  by (auto simp: set_unique)

text \<open>
  C1. \<^verbatim>\<open>userHasPermissionOnChannel(u, c, p)\<close> throws \<^verbatim>\<open>EntityNotFoundError\<close> for the
  entity \<^verbatim>\<open>User\<close> when no user has the id \<open>u\<close>. When the user exists, it returns true
  if and only if some role assigned to the user is assigned to a channel with id \<open>c\<close>
  and has \<open>p\<close> among its permissions, and false otherwise; a channel that none of the
  user's roles is assigned to gives false.
\<close>

theorem user_permission_iff:
  "(find (\<lambda>row. row_id row = u) (user_table s) = None \<longrightarrow>
      userHasPermissionOnChannel s u c p = Inl (EntityNotFoundError ''User'' u)) \<and>
   (\<forall>row. find (\<lambda>row. row_id row = u) (user_table s) = Some row \<longrightarrow>
      userHasPermissionOnChannel s u c p =
        Inr (\<exists>r \<in> set (role_table s).
               role_id r \<in> set (map Some (row_role_ids row)) \<and>
               c \<in> set (map channel_id (channels_of r)) \<and>
               p \<in> set (permissions r)))"
proof (intro conjI allI impI)
  assume "find (\<lambda>row. row_id row = u) (user_table s) = None"
  then show "userHasPermissionOnChannel s u c p = Inl (EntityNotFoundError ''User'' u)"
    by (simp add: userHasPermissionOnChannel_def find_User_def getEntityOrThrow_def)
next
  fix row
  assume row: "find (\<lambda>row. row_id row = u) (user_table s) = Some row"
  let ?user = "load_User s row"
  have "userHasPermissionOnChannel s u c p =
      Inr (case find (\<lambda>e. idsAreEqual (ucp_id e) c) (getUserChannelsPermissions ?user) of
             None \<Rightarrow> False | Some ch \<Rightarrow> p \<in> set (ucp_permissions ch))"
    using row
    by (simp add: userHasPermissionOnChannel_def find_User_def getEntityOrThrow_def
             split: option.splits)
  also have "\<dots> = Inr (\<exists>r \<in> set (roles ?user).
                 c \<in> set (map channel_id (channels_of r)) \<and> p \<in> set (permissions r))"
    by (simp only: permission_on_channel)
  also have "\<dots> = Inr (\<exists>r \<in> set (role_table s).
               role_id r \<in> set (map Some (row_role_ids row)) \<and>
               c \<in> set (map channel_id (channels_of r)) \<and>
               p \<in> set (permissions r))"
    by (auto simp: load_User_def)
  finally show "userHasPermissionOnChannel s u c p =
        Inr (\<exists>r \<in> set (role_table s).
               role_id r \<in> set (map Some (row_role_ids row)) \<and>
               c \<in> set (map channel_id (channels_of r)) \<and>
               p \<in> set (permissions r))" .
qed

theorem user_permission_iff_witness:
  "find (\<lambda>row. row_id row = IdNumber 9) (user_table example_store) = None \<and>
   userHasPermissionOnChannel example_store (IdNumber 9) (IdNumber 1) ''ReadCatalog'' =
     Inl (EntityNotFoundError ''User'' (IdNumber 9)) \<and>
   find (\<lambda>row. row_id row = IdNumber 2) (user_table example_store) =
     Some \<lparr>row_id = IdNumber 2, row_role_ids = [IdNumber 3]\<rparr> \<and>
   userHasPermissionOnChannel example_store (IdNumber 2) (IdNumber 1) ''ReadCatalog'' = Inr True \<and>
   userHasPermissionOnChannel example_store (IdNumber 2) (IdNumber 2) ''ReadCatalog'' = Inr False \<and>
   userHasPermissionOnChannel example_store (IdNumber 2) (IdNumber 1) ''CreateAdministrator'' =
     Inr False"
  using user_permission_iff[of "IdNumber 9" example_store "IdNumber 1" "''ReadCatalog''"]
    user_permission_iff[of "IdNumber 2" example_store "IdNumber 1" "''ReadCatalog''"]
    user_permission_iff[of "IdNumber 2" example_store "IdNumber 2" "''ReadCatalog''"]
    user_permission_iff[of "IdNumber 2" example_store "IdNumber 1" "''CreateAdministrator''"]
  by (simp add: example_defs channels_of_def)

subsection \<open>Validation comes first\<close>

text \<open>
  C3. When the permission list holds an identifier that is not a value of the enum, both
  \<^verbatim>\<open>create\<close> and \<^verbatim>\<open>update\<close> throw the \<^verbatim>\<open>UserInputError\<close> that names the first such
  identifier of the list, and the store is the one they started from. This holds for
  every store and context, so no channel, user or role lookup and no authorization check
  decides the outcome.
\<close>

theorem invalid_permission_rejected:
  assumes "\<not> set ps \<subseteq> set (Permission_values K)"
    and "create_permissions cin = ps"
    and "update_permissions uin = Some ps"
  shows "\<exists>bad. find (\<lambda>p. p \<notin> set (Permission_values K)) ps = Some bad \<and>
           create K s ctx cin =
             (Inl (UserInputError ''error.permission-invalid'' [(''permission'', bad)]), s) \<and>
           update K s' uin =
             (Inl (UserInputError ''error.permission-invalid'' [(''permission'', bad)]), s')"
proof -
  obtain bad where bad: "find (\<lambda>p. p \<notin> set (Permission_values K)) ps = Some bad"
    using find_invalid[OF assms(1)] by blast
  then have chk: "checkPermissionsAreValid K (Some ps) =
      Inl (UserInputError ''error.permission-invalid'' [(''permission'', bad)])"
    by (simp add: checkPermissionsAreValid_def getAllPermissions_def loop_rejects_first)
  have "create K s ctx cin =
      (Inl (UserInputError ''error.permission-invalid'' [(''permission'', bad)]), s)"
    using chk assms(2) by (simp add: create_def)
  moreover have "update K s' uin =
      (Inl (UserInputError ''error.permission-invalid'' [(''permission'', bad)]), s')"
    using chk assms(3) by (simp add: update_def)
  ultimately show ?thesis using bad by blast
qed

theorem invalid_permission_rejected_witness:
  "\<not> set [''ReadCatalog'', ''NotARealPermission'', ''Bogus'']
       \<subseteq> set (Permission_values example_imported) \<and>
   create example_imported example_store ctx_admin
     \<lparr>create_channelId = Some (IdNumber 77), create_code = ''x'', create_description = ''y'',
      create_permissions = [''ReadCatalog'', ''NotARealPermission'', ''Bogus'']\<rparr> =
     (Inl (UserInputError ''error.permission-invalid''
             [(''permission'', ''NotARealPermission'')]), example_store) \<and>
   update example_imported example_store
     \<lparr>update_id = IdNumber 77, update_code = None, update_description = None,
      update_permissions = Some [''ReadCatalog'', ''NotARealPermission'', ''Bogus'']\<rparr> =
     (Inl (UserInputError ''error.permission-invalid''
             [(''permission'', ''NotARealPermission'')]), example_store)"
  using invalid_permission_rejected
    [of "[''ReadCatalog'', ''NotARealPermission'', ''Bogus'']" example_imported
        "\<lparr>create_channelId = Some (IdNumber 77), create_code = ''x'', create_description = ''y'',
          create_permissions = [''ReadCatalog'', ''NotARealPermission'', ''Bogus'']\<rparr>"
        "\<lparr>update_id = IdNumber 77, update_code = None, update_description = None,
          update_permissions = Some [''ReadCatalog'', ''NotARealPermission'', ''Bogus'']\<rparr>"
        example_store ctx_admin example_store]
  by (simp add: example_imported_def)

subsection \<open>System roles are protected\<close>

text \<open>
  C2, as the source has it. \<^verbatim>\<open>update\<close> on a role whose code is the SuperAdmin or the
  Customer code always throws and leaves the store, and so the stored role, as it was.
  When the input has no permission list, or a list of enum values only, the error is the
  \<^verbatim>\<open>InternalServerError\<close> \<^verbatim>\<open>error.cannot-modify-role\<close> naming the role's code. When the
  list holds an identifier that is not an enum value, the error is the
  \<^verbatim>\<open>UserInputError\<close> \<^verbatim>\<open>error.permission-invalid\<close> naming the first such identifier,
  because the permissions are validated before the role is loaded.
\<close>

theorem update_system_role_rejected:
  assumes "findOne s (update_id input) = Some role"
    and "code role = SUPER_ADMIN_ROLE_CODE K \<or> code role = CUSTOMER_ROLE_CODE K"
  shows "snd (update K s input) = s \<and>
         findOne (snd (update K s input)) (update_id input) = Some role \<and>
         (\<exists>e. fst (update K s input) = Inl e) \<and>
         (checkPermissionsAreValid K (update_permissions input) = Inr () \<longrightarrow>
            update K s input =
              (Inl (InternalServerError ''error.cannot-modify-role'' [(''roleCode'', code role)]), s)) \<and>
         update K s input =
           (case update_permissions input of
              None \<Rightarrow>
                (Inl (InternalServerError ''error.cannot-modify-role''
                        [(''roleCode'', code role)]), s)
            | Some ps \<Rightarrow>
                (case find (\<lambda>p. p \<notin> set (Permission_values K)) ps of
                   None \<Rightarrow>
                     (Inl (InternalServerError ''error.cannot-modify-role''
                             [(''roleCode'', code role)]), s)
                 | Some bad \<Rightarrow>
                     (Inl (UserInputError ''error.permission-invalid''
                             [(''permission'', bad)]), s)))"
proof -
  let ?internal = "(Inl (InternalServerError ''error.cannot-modify-role''
                           [(''roleCode'', code role)]), s)"
  have guarded: "update K s input = ?internal"
    if "checkPermissionsAreValid K (update_permissions input) = Inr ()"
    using that assms by (auto simp: update_def)
  have exact: "update K s input =
           (case update_permissions input of
              None \<Rightarrow> ?internal
            | Some ps \<Rightarrow>
                (case find (\<lambda>p. p \<notin> set (Permission_values K)) ps of
                   None \<Rightarrow> ?internal
                 | Some bad \<Rightarrow>
                     (Inl (UserInputError ''error.permission-invalid''
                             [(''permission'', bad)]), s)))"
  proof (cases "update_permissions input")
    case None
    then have "checkPermissionsAreValid K (update_permissions input) = Inr ()"
      by (simp add: checkPermissionsAreValid_def)
    then show ?thesis using None guarded by simp
  next
    case (Some ps)
    show ?thesis
    proof (cases "find (\<lambda>p. p \<notin> set (Permission_values K)) ps")
      case None
      then have "set ps \<subseteq> set (Permission_values K)"
        by (auto simp: find_None_iff)
      then have "checkPermissionsAreValid K (update_permissions input) = Inr ()"
        using Some by (simp add: check_valid_iff)
      then show ?thesis using Some None guarded by simp
    next
      case (Some bad)
      then have "checkPermissionsAreValid K (Some ps) =
          Inl (UserInputError ''error.permission-invalid'' [(''permission'', bad)])"
        by (simp add: checkPermissionsAreValid_def getAllPermissions_def loop_rejects_first)
      then show ?thesis
        using \<open>update_permissions input = Some ps\<close> Some by (simp add: update_def)
    qed
  qed
  have unchanged: "snd (update K s input) = s"
    by (subst exact) (simp split: option.splits)
  have fails: "\<exists>e. fst (update K s input) = Inl e"
    by (subst exact) (simp split: option.splits)
  show ?thesis using unchanged fails guarded exact assms(1) by simp
qed

theorem update_system_role_rejected_witness:
  "findOne example_store (IdNumber 2) = Some role_customer \<and>
   code role_customer = CUSTOMER_ROLE_CODE example_imported \<and>
   update example_imported example_store
     \<lparr>update_id = IdNumber 2, update_code = None, update_description = Some ''x'',
      update_permissions = None\<rparr> =
     (Inl (InternalServerError ''error.cannot-modify-role'' [(''roleCode'', ''CUSTOMER'')]),
      example_store) \<and>
   findOne example_store (IdNumber 1) = Some role_super_admin \<and>
   code role_super_admin = SUPER_ADMIN_ROLE_CODE example_imported \<and>
   update example_imported example_store
     \<lparr>update_id = IdNumber 1, update_code = None, update_description = None,
      update_permissions = Some [''ReadCatalog'', ''NotARealPermission'', ''Bogus'']\<rparr> =
     (Inl (UserInputError ''error.permission-invalid''
             [(''permission'', ''NotARealPermission'')]), example_store) \<and>
   update example_imported example_store
     \<lparr>update_id = IdNumber 1, update_code = Some ''root'', update_description = None,
      update_permissions = Some [''ReadCatalog'', ''Owner'']\<rparr> =
     (Inl (InternalServerError ''error.cannot-modify-role'' [(''roleCode'', ''SUPER_ADMIN'')]),
      example_store)"
  using update_system_role_rejected
    [of example_store "\<lparr>update_id = IdNumber 2, update_code = None,
        update_description = Some ''x'', update_permissions = None\<rparr>" role_customer example_imported]
    update_system_role_rejected
    [of example_store "\<lparr>update_id = IdNumber 1, update_code = None, update_description = None,
        update_permissions = Some [''ReadCatalog'', ''NotARealPermission'', ''Bogus'']\<rparr>"
        role_super_admin example_imported]
    update_system_role_rejected
    [of example_store "\<lparr>update_id = IdNumber 1, update_code = Some ''root'',
        update_description = None, update_permissions = Some [''ReadCatalog'', ''Owner'']\<rparr>"
        role_super_admin example_imported]
  by (simp add: findOne_def example_store_def role_super_admin_def role_customer_def
        example_imported_def checkPermissionsAreValid_def getAllPermissions_def)

text \<open>
  C2 as stated fails: the permissions are validated before the role is loaded, so an
  update of the SuperAdmin role that carries an unknown permission throws
  \<^verbatim>\<open>UserInputError\<close>, not \<^verbatim>\<open>InternalServerError\<close>.
\<close>

theorem update_system_role_counterexample:
  "map_option code (findOne example_store (IdNumber 1)) =
     Some (SUPER_ADMIN_ROLE_CODE example_imported) \<and>
   update example_imported example_store
     \<lparr>update_id = IdNumber 1, update_code = None, update_description = Some ''x'',
      update_permissions = Some [''NotARealPermission'']\<rparr> =
     (Inl (UserInputError ''error.permission-invalid'' [(''permission'', ''NotARealPermission'')]),
      example_store) \<and>
   fst (update example_imported example_store
     \<lparr>update_id = IdNumber 1, update_code = None, update_description = Some ''x'',
      update_permissions = Some [''NotARealPermission'']\<rparr>) \<noteq>
     Inl (InternalServerError ''error.cannot-modify-role'' [(''roleCode'', ''SUPER_ADMIN'')])"
  by (simp add: update_def checkPermissionsAreValid_def getAllPermissions_def findOne_def
        example_imported_def example_store_def role_super_admin_def)

subsection \<open>Every written role carries Authenticated\<close>

text \<open>
  C4. A role written by \<^verbatim>\<open>createRoleForChannel\<close>, by a successful \<^verbatim>\<open>create\<close>, or by a
  successful \<^verbatim>\<open>update\<close> whose input has a permission list, is in the role table
  afterwards with a permission list that contains \<^verbatim>\<open>Authenticated\<close> and has no
  duplicates; as a set it is the input list plus \<^verbatim>\<open>Authenticated\<close>, whether or not the
  input named it. The same holds for the role that a bootstrap step creates when its
  system role is missing.
\<close>

theorem persisted_permissions_normalised:
  "(createRoleForChannel K s cin ch = (r, s') \<or> create K s ctx cin = (Inr r, s') \<longrightarrow>
      r \<in> set (role_table s') \<and>
      Permission_Authenticated K \<in> set (permissions r) \<and> distinct (permissions r) \<and>
      set (permissions r) = insert (Permission_Authenticated K) (set (create_permissions cin))) \<and>
   (update K s uin = (Inr r, s') \<and> update_permissions uin = Some ps \<longrightarrow>
      r \<in> set (role_table s') \<and>
      Permission_Authenticated K \<in> set (permissions r) \<and> distinct (permissions r) \<and>
      set (permissions r) = insert (Permission_Authenticated K) (set ps)) \<and>
   (SUPER_ADMIN_ROLE_CODE K \<notin> set (map code (role_table s)) \<longrightarrow>
      (\<exists>b. role_table (ensureSuperAdminRoleExists K s) = role_table s @ [b] \<and>
           Permission_Authenticated K \<in> set (permissions b) \<and> distinct (permissions b))) \<and>
   (CUSTOMER_ROLE_CODE K \<notin> set (map code (role_table s)) \<longrightarrow>
      (\<exists>b. role_table (ensureCustomerRoleExists K s) = role_table s @ [b] \<and>
           Permission_Authenticated K \<in> set (permissions b) \<and> distinct (permissions b)))"
proof -
  have created: "r \<in> set (role_table s') \<and>
      Permission_Authenticated K \<in> set (permissions r) \<and> distinct (permissions r) \<and>
      set (permissions r) = insert (Permission_Authenticated K) (set (create_permissions cin))"
    if "createRoleForChannel K s cin ch = (r, s') \<or> create K s ctx cin = (Inr r, s')"
  proof -
    from that obtain ch' where "createRoleForChannel K s cin ch' = (r, s')"
      using create_Inr by blast
    then have p: "permissions r = unique (Permission_Authenticated K # create_permissions cin)"
      and s': "role_table s' = role_table s @ [r]"
      by (auto simp: createRoleForChannel_eq)
    show ?thesis
      unfolding p using s' by (simp add: set_unique distinct_unique del: unique.simps)
  qed
  have updated: "r \<in> set (role_table s') \<and>
      Permission_Authenticated K \<in> set (permissions r) \<and> distinct (permissions r) \<and>
      set (permissions r) = insert (Permission_Authenticated K) (set ps)"
    if "update K s uin = (Inr r, s') \<and> update_permissions uin = Some ps"
  proof -
    from that obtain role where "r = stored_row (channels role) (update_id uin)
                 (patchEntity role
                    \<lparr>patch_code = update_code uin, patch_description = update_description uin,
                     patch_permissions = Some (unique (Permission_Authenticated K # ps))\<rparr>)"
      and f: "findOne s' (update_id uin) = Some r"
      using update_Inr[of K s uin r s'] by auto
    then have p: "permissions r = unique (Permission_Authenticated K # ps)"
      by (simp add: stored_row_def patchEntity_def)
    show ?thesis
      unfolding p using findOne_in_table[OF f]
      by (simp add: set_unique distinct_unique del: unique.simps)
  qed
  have super_admin: "\<exists>b. role_table (ensureSuperAdminRoleExists K s) = role_table s @ [b] \<and>
      Permission_Authenticated K \<in> set (permissions b) \<and> distinct (permissions b)"
    if "SUPER_ADMIN_ROLE_CODE K \<notin> set (map code (role_table s))"
  proof -
    from that have "getRoleByCode s (SUPER_ADMIN_ROLE_CODE K) = None"
      using getRoleByCode_None by blast
    then show ?thesis
      by (simp add: ensureSuperAdminRoleExists_def getSuperAdminRole_def Let_def
            createRoleForChannel_eq set_unique distinct_unique del: unique.simps)
  qed
  have customer: "\<exists>b. role_table (ensureCustomerRoleExists K s) = role_table s @ [b] \<and>
      Permission_Authenticated K \<in> set (permissions b) \<and> distinct (permissions b)"
    if "CUSTOMER_ROLE_CODE K \<notin> set (map code (role_table s))"
  proof -
    from that have "getRoleByCode s (CUSTOMER_ROLE_CODE K) = None"
      using getRoleByCode_None by blast
    then show ?thesis
      by (simp add: ensureCustomerRoleExists_def getCustomerRole_def
            createRoleForChannel_eq set_unique distinct_unique del: unique.simps)
  qed
  show ?thesis using created updated super_admin customer by blast
qed

theorem persisted_permissions_normalised_witness:
  "create example_imported example_store ctx_admin
     \<lparr>create_channelId = None, create_code = ''editor2'', create_description = ''Second editor'',
      create_permissions = [''ReadCatalog'', ''ReadCatalog'']\<rparr> =
     (Inr \<lparr>role_id = Some (IdNumber 4), code = ''editor2'', description = ''Second editor'',
           permissions = [''Authenticated'', ''ReadCatalog''], channels = Some [channel_default]\<rparr>,
      example_store\<lparr>role_table := role_table example_store @
          [\<lparr>role_id = Some (IdNumber 4), code = ''editor2'', description = ''Second editor'',
            permissions = [''Authenticated'', ''ReadCatalog''],
            channels = Some [channel_default]\<rparr>],
        writes := 1\<rparr>) \<and>
   update example_imported example_store
     \<lparr>update_id = IdNumber 3, update_code = None, update_description = None,
      update_permissions = Some [''ReadCatalog'', ''ReadCatalog'']\<rparr> =
     (Inr role_editor, example_store\<lparr>writes := 1\<rparr>) \<and>
   Permission_Authenticated example_imported \<in> set [''Authenticated'', ''ReadCatalog''] \<and>
   distinct [''Authenticated'', ''ReadCatalog''] \<and>
   SUPER_ADMIN_ROLE_CODE example_imported \<notin> set (map code (role_table empty_store)) \<and>
   CUSTOMER_ROLE_CODE example_imported \<notin> set (map code (role_table empty_store)) \<and>
   map permissions (role_table (ensureSuperAdminRoleExists example_imported empty_store)) =
     [[''Authenticated'', ''CreateAdministrator'', ''ReadCatalog'']] \<and>
   map permissions (role_table (ensureCustomerRoleExists example_imported empty_store)) =
     [[''Authenticated'']]"
  using persisted_permissions_normalised
    [where K = example_imported and s = example_store and ctx = ctx_admin and ch = channel_default
       and cin = "\<lparr>create_channelId = None, create_code = ''editor2'',
         create_description = ''Second editor'',
         create_permissions = [''ReadCatalog'', ''ReadCatalog'']\<rparr>"
       and r = "\<lparr>role_id = Some (IdNumber 4), code = ''editor2'', description = ''Second editor'',
           permissions = [''Authenticated'', ''ReadCatalog''], channels = Some [channel_default]\<rparr>"
       and s' = "example_store\<lparr>role_table := role_table example_store @
          [\<lparr>role_id = Some (IdNumber 4), code = ''editor2'', description = ''Second editor'',
            permissions = [''Authenticated'', ''ReadCatalog''],
            channels = Some [channel_default]\<rparr>],
        writes := 1\<rparr>"
       and uin = "\<lparr>update_id = IdNumber 3, update_code = None, update_description = None,
          update_permissions = Some [''ReadCatalog'', ''ReadCatalog'']\<rparr>"
       and ps = "[''ReadCatalog'', ''ReadCatalog'']"]
    persisted_permissions_normalised
    [where K = example_imported and s = example_store and ctx = ctx_admin and ch = channel_default
       and cin = "\<lparr>create_channelId = None, create_code = ''editor2'',
         create_description = ''Second editor'',
         create_permissions = [''ReadCatalog'', ''ReadCatalog'']\<rparr>"
       and r = role_editor
       and s' = "example_store\<lparr>writes := 1\<rparr>"
       and uin = "\<lparr>update_id = IdNumber 3, update_code = None, update_description = None,
          update_permissions = Some [''ReadCatalog'', ''ReadCatalog'']\<rparr>"
       and ps = "[''ReadCatalog'', ''ReadCatalog'']"]
    persisted_permissions_normalised [where K = example_imported and s = empty_store]
  by (simp add: service_defs example_defs Let_def eval_nat_numeral)

subsection \<open>Creating a role without an acting user\<close>

text \<open>
  C7, as the source has it. When the permissions of the input are valid and the context
  has no acting user, \<^verbatim>\<open>create\<close> throws and writes nothing. The target channel is
  resolved before the acting user is looked at: the error is \<^verbatim>\<open>ForbiddenError\<close> when the
  input names no channel or names a channel that exists, and \<^verbatim>\<open>EntityNotFoundError\<close> for
  the entity \<^verbatim>\<open>Channel\<close> when it names a channel that does not exist.
\<close>

theorem create_without_user:
  assumes "set (create_permissions input) \<subseteq> set (Permission_values K)"
    and "present (activeUserId ctx) = None"
  shows "snd (create K s ctx input) = s \<and>
         fst (create K s ctx input) =
           (case present (create_channelId input) of
              None \<Rightarrow> Inl ForbiddenError
            | Some channelId \<Rightarrow>
                (case find_Channel s channelId of
                   None \<Rightarrow> Inl (EntityNotFoundError ''Channel'' channelId)
                 | Some _ \<Rightarrow> Inl ForbiddenError))"
proof -
  have "checkPermissionsAreValid K (Some (create_permissions input)) = Inr ()"
    using assms(1) by (simp add: check_valid_iff)
  then show ?thesis using assms(2)
    by (simp add: create_def getEntityOrThrow_def split: option.splits)
qed

theorem create_without_user_witness:
  "set [''ReadCatalog''] \<subseteq> set (Permission_values example_imported) \<and>
   present (activeUserId ctx_anonymous) = None \<and>
   create example_imported example_store ctx_anonymous
     \<lparr>create_channelId = Some (IdNumber 2), create_code = ''editor2'',
      create_description = ''Second editor'', create_permissions = [''ReadCatalog'']\<rparr> =
     (Inl ForbiddenError, example_store)"
  using create_without_user
    [of "\<lparr>create_channelId = Some (IdNumber 2), create_code = ''editor2'',
          create_description = ''Second editor'', create_permissions = [''ReadCatalog'']\<rparr>"
        example_imported ctx_anonymous example_store]
  by (simp add: example_imported_def ctx_anonymous_def present_def find_Channel_def
        example_store_def channel_default_def channel_second_def prod_eq_iff)

text \<open>
  C7 as stated fails: without an acting user, a request that names a channel that does
  not exist throws \<^verbatim>\<open>EntityNotFoundError\<close>, and the same request naming an existing
  channel throws \<^verbatim>\<open>ForbiddenError\<close>.
\<close>

theorem create_without_user_counterexample:
  "activeUserId ctx_anonymous = None \<and>
   checkPermissionsAreValid example_imported (Some [''ReadCatalog'']) = Inr () \<and>
   create example_imported example_store ctx_anonymous
     \<lparr>create_channelId = Some (IdNumber 99), create_code = ''editor2'',
      create_description = ''Second editor'', create_permissions = [''ReadCatalog'']\<rparr> =
     (Inl (EntityNotFoundError ''Channel'' (IdNumber 99)), example_store) \<and>
   create example_imported example_store ctx_anonymous
     \<lparr>create_channelId = Some (IdNumber 2), create_code = ''editor2'',
      create_description = ''Second editor'', create_permissions = [''ReadCatalog'']\<rparr> =
     (Inl ForbiddenError, example_store)"
  by (simp add: create_def checkPermissionsAreValid_def getAllPermissions_def present_def
        getEntityOrThrow_def find_Channel_def example_imported_def ctx_anonymous_def
        example_store_def channel_default_def channel_second_def)

subsection \<open>Updating a custom role\<close>

text \<open>
  C8. For a stored role that is not a system role, the role stored under the same id
  after \<^verbatim>\<open>update\<close> (which is the role returned when the input passes validation) has
  the id and the channels it had before, whatever the input; and its code, description
  and permissions are the prior ones when the input leaves the respective field out.
\<close>

theorem update_partial_patch:
  assumes "findOne s (update_id input) = Some role"
    and "code role \<noteq> SUPER_ADMIN_ROLE_CODE K" and "code role \<noteq> CUSTOMER_ROLE_CODE K"
  shows "\<exists>r. findOne (snd (update K s input)) (update_id input) = Some r \<and>
           (checkPermissionsAreValid K (update_permissions input) = Inr () \<longrightarrow>
              fst (update K s input) = Inr r) \<and>
           role_id r = role_id role \<and>
           channels r = channels role \<and>
           (update_code input = None \<longrightarrow> code r = code role) \<and>
           (update_description input = None \<longrightarrow> description r = description role) \<and>
           (update_permissions input = None \<longrightarrow> permissions r = permissions role)"
proof (cases "checkPermissionsAreValid K (update_permissions input)")
  case (Inl e)
  then have "update K s input = (Inl e, s)" by (simp add: update_def)
  then show ?thesis using assms(1) Inl by simp
next
  case (Inr u)
  let ?u = "patchEntity role
              \<lparr>patch_code = update_code input, patch_description = update_description input,
               patch_permissions =
                 (case update_permissions input of
                    Some ps \<Rightarrow> Some (unique (Permission_Authenticated K # ps))
                  | None \<Rightarrow> None)\<rparr>"
  let ?r = "stored_row (channels role) (update_id input) ?u"
  have id: "role_id role = Some (update_id input)" using assms(1) by (rule findOne_id)
  then have uid: "role_id ?u = Some (update_id input)" by (simp add: patchEntity_def)
  have after: "findOne (snd (save s ?u)) (update_id input) = Some ?r"
    using assms(1) uid by (rule findOne_after_save)
  have upd: "update K s input = (Inr ?r, snd (save s ?u))"
    using Inr assms id after
    by (simp add: update_def Let_def assertFound_def case_prod_unfold)
  have "role_id ?r = role_id role" "channels ?r = channels role"
    "update_code input = None \<longrightarrow> code ?r = code role"
    "update_description input = None \<longrightarrow> description ?r = description role"
    "update_permissions input = None \<longrightarrow> permissions ?r = permissions role"
    using id by (auto simp: stored_row_def patchEntity_def split: option.splits)
  then show ?thesis using upd after by auto
qed

theorem update_partial_patch_witness:
  "findOne example_store (IdNumber 3) = Some role_editor \<and>
   code role_editor \<noteq> SUPER_ADMIN_ROLE_CODE example_imported \<and>
   code role_editor \<noteq> CUSTOMER_ROLE_CODE example_imported \<and>
   (\<exists>r. findOne (snd (update example_imported example_store
                        \<lparr>update_id = IdNumber 3, update_code = None,
                         update_description = Some ''Catalogue editor'',
                         update_permissions = None\<rparr>)) (IdNumber 3) = Some r \<and>
        fst (update example_imported example_store
               \<lparr>update_id = IdNumber 3, update_code = None,
                update_description = Some ''Catalogue editor'',
                update_permissions = None\<rparr>) = Inr r \<and>
        code r = ''editor'' \<and>
        permissions r = [''Authenticated'', ''ReadCatalog''] \<and>
        channels r = Some [channel_default])"
proof -
  let ?input = "\<lparr>update_id = IdNumber 3, update_code = None,
                 update_description = Some ''Catalogue editor'', update_permissions = None\<rparr>"
  have found: "findOne example_store (update_id ?input) = Some role_editor"
    by (simp add: findOne_def example_store_def role_super_admin_def role_customer_def
          role_editor_def)
  have custom: "code role_editor \<noteq> SUPER_ADMIN_ROLE_CODE example_imported"
    "code role_editor \<noteq> CUSTOMER_ROLE_CODE example_imported"
    by (simp_all add: role_editor_def example_imported_def)
  have valid: "checkPermissionsAreValid example_imported (update_permissions ?input) = Inr ()"
    by (simp add: checkPermissionsAreValid_def)
  have fields: "code role_editor = ''editor''"
    "permissions role_editor = [''Authenticated'', ''ReadCatalog'']"
    "channels role_editor = Some [channel_default]"
    by (simp_all add: role_editor_def)
  from update_partial_patch[OF found custom] valid fields found custom
  show ?thesis by auto
qed

subsection \<open>The Customer bootstrap step\<close>

text \<open>
  C9. \<^verbatim>\<open>ensureCustomerRoleExists\<close> leaves the store as it is (no \<^verbatim>\<open>save\<close>) when some
  role has the Customer code. Otherwise it makes one \<^verbatim>\<open>save\<close>, which appends one role:
  the Customer code and description, the permission list \<^verbatim>\<open>[Authenticated]\<close>, and the
  default channel as its only channel.
\<close>

theorem customer_bootstrap:
  "(CUSTOMER_ROLE_CODE K \<in> set (map code (role_table s)) \<longrightarrow>
      ensureCustomerRoleExists K s = s) \<and>
   (CUSTOMER_ROLE_CODE K \<notin> set (map code (role_table s)) \<longrightarrow>
      ensureCustomerRoleExists K s =
        s\<lparr>role_table := role_table s @
             [\<lparr>role_id = Some (fresh_id (role_table s)),
               code = CUSTOMER_ROLE_CODE K,
               description = CUSTOMER_ROLE_DESCRIPTION K,
               permissions = [Permission_Authenticated K],
               channels = Some [default_channel s]\<rparr>],
           writes := Suc (writes s)\<rparr>)"
proof -
  have "ensureCustomerRoleExists K s = s"
    if "CUSTOMER_ROLE_CODE K \<in> set (map code (role_table s))"
  proof -
    from that have "getRoleByCode s (CUSTOMER_ROLE_CODE K) \<noteq> None"
      using getRoleByCode_None by blast
    then show ?thesis
      by (auto simp: ensureCustomerRoleExists_def getCustomerRole_def)
  qed
  moreover have "ensureCustomerRoleExists K s =
        s\<lparr>role_table := role_table s @
             [\<lparr>role_id = Some (fresh_id (role_table s)),
               code = CUSTOMER_ROLE_CODE K,
               description = CUSTOMER_ROLE_DESCRIPTION K,
               permissions = [Permission_Authenticated K],
               channels = Some [default_channel s]\<rparr>],
           writes := Suc (writes s)\<rparr>"
    if "CUSTOMER_ROLE_CODE K \<notin> set (map code (role_table s))"
  proof -
    from that have "getRoleByCode s (CUSTOMER_ROLE_CODE K) = None"
      using getRoleByCode_None by blast
    then show ?thesis
      by (simp add: ensureCustomerRoleExists_def getCustomerRole_def createRoleForChannel_eq)
  qed
  ultimately show ?thesis by blast
qed

theorem customer_bootstrap_witness:
  "CUSTOMER_ROLE_CODE example_imported \<in> set (map code (role_table example_store)) \<and>
   ensureCustomerRoleExists example_imported example_store = example_store \<and>
   CUSTOMER_ROLE_CODE example_imported \<notin> set (map code (role_table empty_store)) \<and>
   ensureCustomerRoleExists example_imported empty_store =
     empty_store\<lparr>role_table :=
         [\<lparr>role_id = Some (IdNumber 1), code = ''CUSTOMER'', description = ''Customer'',
           permissions = [''Authenticated''], channels = Some [channel_default]\<rparr>],
       writes := 1\<rparr>"
  using customer_bootstrap[of example_imported example_store]
    customer_bootstrap[of example_imported empty_store]
  by (simp add: example_imported_def example_store_def empty_store_def role_super_admin_def
        role_customer_def role_editor_def fresh_id_def)

subsection \<open>The bootstrap sequence\<close>

text \<open>
  C5. \<^verbatim>\<open>initRoles\<close> runs the SuperAdmin step and then the Customer step. Started on a
  store without roles it makes two saves: the SuperAdmin role first (key 1), then the
  Customer role (key 2). A second run leaves the store as the first run left it, the
  count of saves included. After the two runs exactly one role has the SuperAdmin code
  and exactly one the Customer code, and the permissions of the SuperAdmin role are, as
  a set, the values of the enum without \<^verbatim>\<open>Owner\<close>. The enum has \<^verbatim>\<open>Authenticated\<close>
  among its values, as a member different from \<^verbatim>\<open>Owner\<close>, and the two role codes
  differ.
\<close>

theorem initRoles_idempotent:
  assumes "enum_members K" and "imported_distinct K" and "role_table s = []"
  shows "initRoles K s = ensureCustomerRoleExists K (ensureSuperAdminRoleExists K s) \<and>
         initRoles K s =
           s\<lparr>role_table :=
               [\<lparr>role_id = Some (IdNumber 1), code = SUPER_ADMIN_ROLE_CODE K,
                 description = SUPER_ADMIN_ROLE_DESCRIPTION K,
                 permissions = unique (Permission_Authenticated K # allPermissionsExceptOwner K),
                 channels = Some [default_channel s]\<rparr>,
                \<lparr>role_id = Some (IdNumber 2), code = CUSTOMER_ROLE_CODE K,
                 description = CUSTOMER_ROLE_DESCRIPTION K,
                 permissions = [Permission_Authenticated K],
                 channels = Some [default_channel s]\<rparr>],
             writes := writes s + 2\<rparr> \<and>
         initRoles K (initRoles K s) = initRoles K s \<and>
         length (filter (\<lambda>r. code r = SUPER_ADMIN_ROLE_CODE K)
                   (role_table (initRoles K (initRoles K s)))) = 1 \<and>
         length (filter (\<lambda>r. code r = CUSTOMER_ROLE_CODE K)
                   (role_table (initRoles K (initRoles K s)))) = 1 \<and>
         map_option (\<lambda>r. set (permissions r))
             (getRoleByCode (initRoles K (initRoles K s)) (SUPER_ADMIN_ROLE_CODE K)) =
           Some (set (Permission_values K) - {Permission_Owner K})"
proof -
  let ?sa = "\<lparr>role_id = Some (IdNumber 1), code = SUPER_ADMIN_ROLE_CODE K,
                 description = SUPER_ADMIN_ROLE_DESCRIPTION K,
                 permissions = unique (Permission_Authenticated K # allPermissionsExceptOwner K),
                 channels = Some [default_channel s]\<rparr>"
  let ?cu = "\<lparr>role_id = Some (IdNumber 2), code = CUSTOMER_ROLE_CODE K,
                 description = CUSTOMER_ROLE_DESCRIPTION K,
                 permissions = [Permission_Authenticated K],
                 channels = Some [default_channel s]\<rparr>"
  let ?s1 = "s\<lparr>role_table := [?sa], writes := Suc (writes s)\<rparr>"
  let ?s2 = "s\<lparr>role_table := [?sa, ?cu], writes := writes s + 2\<rparr>"
  have neq: "SUPER_ADMIN_ROLE_CODE K \<noteq> CUSTOMER_ROLE_CODE K"
    and auth: "Permission_Authenticated K \<noteq> Permission_Owner K"
    using assms(2) by (simp_all add: imported_distinct_def)
  have mem: "Permission_Authenticated K \<in> set (Permission_values K)"
    using assms(1) by (simp add: enum_members_def)
  have sa1: "ensureSuperAdminRoleExists K s = ?s1"
    using assms(3)
    by (simp add: ensureSuperAdminRoleExists_def getSuperAdminRole_def getRoleByCode_def
          createRoleForChannel_eq fresh_id_def Let_def del: unique.simps)
  have cu1: "ensureCustomerRoleExists K ?s1 = ?s2"
    using neq
    by (simp add: ensureCustomerRoleExists_def getCustomerRole_def getRoleByCode_def
          createRoleForChannel_eq fresh_id_def unique_twice numeral_2_eq_2 del: unique.simps)
  have first: "initRoles K s = ?s2"
    by (simp only: initRoles_def sa1 cu1)
  have sa2: "ensureSuperAdminRoleExists K ?s2 = ?s2"
    by (simp add: ensureSuperAdminRoleExists_def getSuperAdminRole_def getRoleByCode_def
          Let_def list_all_unique_self del: unique.simps)
  have cu2: "ensureCustomerRoleExists K ?s2 = ?s2"
    using neq
    by (simp add: ensureCustomerRoleExists_def getCustomerRole_def getRoleByCode_def
          del: unique.simps)
  have second: "initRoles K ?s2 = ?s2"
    by (simp only: initRoles_def sa2 cu2)
  have perms: "set (unique (Permission_Authenticated K # allPermissionsExceptOwner K)) =
      set (Permission_values K) - {Permission_Owner K}"
    using mem auth unfolding set_unique by (auto simp: allPermissionsExceptOwner_def)
  have order: "initRoles K s = ensureCustomerRoleExists K (ensureSuperAdminRoleExists K s)"
    by (simp only: initRoles_def)
  have rest: "initRoles K s = ?s2 \<and>
         initRoles K (initRoles K s) = initRoles K s \<and>
         length (filter (\<lambda>r. code r = SUPER_ADMIN_ROLE_CODE K)
                   (role_table (initRoles K (initRoles K s)))) = 1 \<and>
         length (filter (\<lambda>r. code r = CUSTOMER_ROLE_CODE K)
                   (role_table (initRoles K (initRoles K s)))) = 1 \<and>
         map_option (\<lambda>r. set (permissions r))
             (getRoleByCode (initRoles K (initRoles K s)) (SUPER_ADMIN_ROLE_CODE K)) =
           Some (set (Permission_values K) - {Permission_Owner K})"
    unfolding first second using neq perms
    by (simp add: getRoleByCode_def del: unique.simps)
  show ?thesis using order rest by blast
qed

theorem initRoles_idempotent_witness:
  "enum_members example_imported \<and> imported_distinct example_imported \<and>
   role_table empty_store = [] \<and>
   initRoles example_imported (initRoles example_imported empty_store) =
     empty_store\<lparr>role_table :=
         [\<lparr>role_id = Some (IdNumber 1), code = ''SUPER_ADMIN'', description = ''SuperAdmin'',
           permissions = [''Authenticated'', ''CreateAdministrator'', ''ReadCatalog''],
           channels = Some [channel_default]\<rparr>,
          \<lparr>role_id = Some (IdNumber 2), code = ''CUSTOMER'', description = ''Customer'',
           permissions = [''Authenticated''], channels = Some [channel_default]\<rparr>],
       writes := 2\<rparr>"
  using initRoles_idempotent[of example_imported empty_store]
  by (simp add: enum_members_def imported_distinct_def service_defs example_defs Let_def
        eval_nat_numeral)

subsection \<open>The SuperAdmin bootstrap step on an existing role\<close>

text \<open>
  C6, as the source has it. On a store whose SuperAdmin role has the permission list
  \<open>S\<close>: when \<open>S\<close> holds every value of the enum other than \<^verbatim>\<open>Owner\<close>, the step
  writes nothing and \<open>S\<close> stays, whatever else it holds. Otherwise the step makes one
  save that replaces \<open>S\<close> by exactly the values of the enum other than \<^verbatim>\<open>Owner\<close>. In
  both cases the role afterwards holds all of these values, and it holds all of \<open>S\<close>
  when \<open>S\<close> had nothing outside them.
\<close>

theorem superadmin_healing:
  assumes "roles_keyed s" and "getRoleByCode s (SUPER_ADMIN_ROLE_CODE K) = Some role"
  shows "(set (allPermissionsExceptOwner K) \<subseteq> set (permissions role) \<longrightarrow>
            ensureSuperAdminRoleExists K s = s) \<and>
         (\<not> set (allPermissionsExceptOwner K) \<subseteq> set (permissions role) \<longrightarrow>
            map_option permissions
                (getRoleByCode (ensureSuperAdminRoleExists K s) (SUPER_ADMIN_ROLE_CODE K)) =
              Some (allPermissionsExceptOwner K) \<and>
            writes (ensureSuperAdminRoleExists K s) = Suc (writes s)) \<and>
         (\<exists>r. getRoleByCode (ensureSuperAdminRoleExists K s) (SUPER_ADMIN_ROLE_CODE K) = Some r \<and>
              set (allPermissionsExceptOwner K) \<subseteq> set (permissions r) \<and>
              (set (permissions role) \<subseteq> set (allPermissionsExceptOwner K) \<longrightarrow>
                 set (permissions role) \<subseteq> set (permissions r)))"
proof (cases "set (allPermissionsExceptOwner K) \<subseteq> set (permissions role)")
  case True
  then have "ensureSuperAdminRoleExists K s = s"
    using assms(2)
    by (simp add: ensureSuperAdminRoleExists_def getSuperAdminRole_def Let_def list_all_mem)
  then show ?thesis using True assms(2) by simp
next
  case False
  let ?c = "SUPER_ADMIN_ROLE_CODE K"
  let ?all = "allPermissionsExceptOwner K"
  from assms(2) obtain old where old: "find (\<lambda>r. code r = ?c) (role_table s) = Some old"
    and role: "role = old\<lparr>channels := None\<rparr>"
    by (auto simp: getRoleByCode_def)
  from old have "old \<in> set (role_table s)" and code: "code old = ?c"
    by (auto simp: find_Some_iff)
  then obtain i where i: "role_id old = Some i"
    using assms(1) by (auto simp: roles_keyed_def list_all_iff)
  then have "findOne s i \<noteq> None"
    using \<open>old \<in> set (role_table s)\<close> by (auto simp: findOne_def find_None_iff)
  then obtain old' where old': "findOne s i = Some old'" by blast
  let ?row = "stored_row (channels old') i (role\<lparr>permissions := ?all\<rparr>)"
  have rid: "role_id (role\<lparr>permissions := ?all\<rparr>) = Some i" using i role by simp
  have ens: "ensureSuperAdminRoleExists K s = snd (save s (role\<lparr>permissions := ?all\<rparr>))"
    using False assms(2)
    by (simp add: ensureSuperAdminRoleExists_def getSuperAdminRole_def Let_def list_all_mem)
  have sv: "snd (save s (role\<lparr>permissions := ?all\<rparr>)) =
      s\<lparr>role_table := map (\<lambda>x. if role_id x = Some i then ?row else x) (role_table s),
        writes := Suc (writes s)\<rparr>"
    using save_existing[OF old' rid] by simp
  have "code ?row = ?c" using code role by (simp add: stored_row_def)
  then have "find (\<lambda>r. code r = ?c) (map (\<lambda>x. if role_id x = Some i then ?row else x) (role_table s))
      = Some ?row"
    using old i by (rule find_code_replaced[rotated 2])
  then have after: "getRoleByCode (ensureSuperAdminRoleExists K s) ?c = Some (?row\<lparr>channels := None\<rparr>)"
    unfolding ens sv by (simp add: getRoleByCode_def)
  have p: "permissions (?row\<lparr>channels := None\<rparr>) = ?all" by (simp add: stored_row_def)
  have w: "writes (ensureSuperAdminRoleExists K s) = Suc (writes s)"
    unfolding ens sv by simp
  show ?thesis using False after p w by auto
qed

theorem superadmin_healing_witness:
  "roles_keyed legacy_store \<and>
   map_option permissions (getRoleByCode legacy_store (SUPER_ADMIN_ROLE_CODE example_imported)) =
     Some [''Authenticated'', ''Legacy''] \<and>
   \<not> set (allPermissionsExceptOwner example_imported) \<subseteq> set [''Authenticated'', ''Legacy''] \<and>
   map_option permissions
       (getRoleByCode (ensureSuperAdminRoleExists example_imported legacy_store)
          (SUPER_ADMIN_ROLE_CODE example_imported)) =
     Some [''Authenticated'', ''CreateAdministrator'', ''ReadCatalog''] \<and>
   writes (ensureSuperAdminRoleExists example_imported legacy_store) = 1"
  using superadmin_healing
    [of legacy_store example_imported
        "\<lparr>role_id = Some (IdNumber 1), code = ''SUPER_ADMIN'', description = ''SuperAdmin'',
          permissions = [''Authenticated'', ''Legacy''], channels = None\<rparr>"]
  by (simp add: roles_keyed_def getRoleByCode_def legacy_store_def example_store_def
        role_super_admin_def role_customer_def example_imported_def allPermissionsExceptOwner_def)

text \<open>
  C6 as stated fails: a SuperAdmin role that holds a permission the enum no longer has,
  and lacks a newer one, is overwritten, and the old permission is gone.
\<close>

theorem superadmin_healing_counterexample:
  "map_option permissions (getRoleByCode legacy_store (SUPER_ADMIN_ROLE_CODE example_imported)) =
     Some [''Authenticated'', ''Legacy''] \<and>
   map_option permissions
       (getRoleByCode (ensureSuperAdminRoleExists example_imported legacy_store)
          (SUPER_ADMIN_ROLE_CODE example_imported)) =
     Some [''Authenticated'', ''CreateAdministrator'', ''ReadCatalog''] \<and>
   \<not> set [''Authenticated'', ''Legacy'']
       \<subseteq> set [''Authenticated'', ''CreateAdministrator'', ''ReadCatalog'']"
  by (simp add: service_defs example_defs Let_def)

subsection \<open>Owner is a valid permission\<close>

text \<open>
  C10. \<^verbatim>\<open>getAllPermissions\<close> returns the values of the enum, \<^verbatim>\<open>Owner\<close> and
  \<^verbatim>\<open>Authenticated\<close> among them, and \<^verbatim>\<open>checkPermissionsAreValid\<close> accepts every list
  of such values. So a \<^verbatim>\<open>create\<close> by a user who holds \<^verbatim>\<open>CreateAdministrator\<close> on the
  target channel, and an \<^verbatim>\<open>update\<close> of a custom role, whose valid permission list names
  \<^verbatim>\<open>Owner\<close>, succeed and store a role that has \<^verbatim>\<open>Owner\<close>, although the permission
  list of the SuperAdmin bootstrap step leaves \<^verbatim>\<open>Owner\<close> out.
\<close>

theorem owner_is_grantable:
  assumes "enum_members K"
  shows "set (getAllPermissions K) = set (Permission_values K) \<and>
         Permission_Owner K \<in> set (getAllPermissions K) \<and>
         Permission_Authenticated K \<in> set (getAllPermissions K) \<and>
         Permission_Owner K \<notin> set (allPermissionsExceptOwner K) \<and>
         (set ps \<subseteq> set (getAllPermissions K) \<longrightarrow> checkPermissionsAreValid K (Some ps) = Inr ()) \<and>
         (set (create_permissions cin) \<subseteq> set (getAllPermissions K) \<and>
          Permission_Owner K \<in> set (create_permissions cin) \<and>
          (case present (create_channelId cin) of
             None \<Rightarrow> Some (channel ctx) | Some channelId \<Rightarrow> find_Channel s channelId) =
            Some target \<and>
          present (activeUserId ctx) = Some userId \<and>
          userHasPermissionOnChannel s userId (channel_id target)
            (Permission_CreateAdministrator K) = Inr True \<longrightarrow>
            (\<exists>r s'. create K s ctx cin = (Inr r, s') \<and> r \<in> set (role_table s') \<and>
                     Permission_Owner K \<in> set (permissions r))) \<and>
         (findOne s (update_id uin) = Some role \<and>
          code role \<noteq> SUPER_ADMIN_ROLE_CODE K \<and> code role \<noteq> CUSTOMER_ROLE_CODE K \<and>
          update_permissions uin = Some ps \<and> set ps \<subseteq> set (getAllPermissions K) \<and>
          Permission_Owner K \<in> set ps \<longrightarrow>
            (\<exists>r s'. update K s uin = (Inr r, s') \<and> findOne s' (update_id uin) = Some r \<and>
                     Permission_Owner K \<in> set (permissions r)))"
proof -
  have all: "set (getAllPermissions K) = set (Permission_values K)"
    by (simp add: getAllPermissions_def)
  have members: "Permission_Owner K \<in> set (getAllPermissions K)"
    "Permission_Authenticated K \<in> set (getAllPermissions K)"
    using assms by (simp_all add: enum_members_def getAllPermissions_def)
  have excluded: "Permission_Owner K \<notin> set (allPermissionsExceptOwner K)"
    by (simp add: allPermissionsExceptOwner_def)
  have accepted: "checkPermissionsAreValid K (Some qs) = Inr ()"
    if "set qs \<subseteq> set (getAllPermissions K)" for qs
    using that by (simp add: check_valid_iff getAllPermissions_def)
  have created: "\<exists>r s'. create K s ctx cin = (Inr r, s') \<and> r \<in> set (role_table s') \<and>
                     Permission_Owner K \<in> set (permissions r)"
    if valid: "set (create_permissions cin) \<subseteq> set (getAllPermissions K)"
      and owner: "Permission_Owner K \<in> set (create_permissions cin)"
      and target: "(case present (create_channelId cin) of
             None \<Rightarrow> Some (channel ctx) | Some channelId \<Rightarrow> find_Channel s channelId) =
            Some target"
      and user: "present (activeUserId ctx) = Some userId"
      and allowed: "userHasPermissionOnChannel s userId (channel_id target)
            (Permission_CreateAdministrator K) = Inr True"
  proof -
    have "create K s ctx cin =
        (case createRoleForChannel K s cin target of (role, s') \<Rightarrow> (Inr role, s'))"
      using accepted[OF valid] target user allowed
      by (auto simp: create_def getEntityOrThrow_def split: option.splits)
    then show ?thesis using owner
      by (simp add: createRoleForChannel_eq set_unique del: unique.simps)
  qed
  have updated: "\<exists>r s'. update K s uin = (Inr r, s') \<and> findOne s' (update_id uin) = Some r \<and>
                     Permission_Owner K \<in> set (permissions r)"
    if found: "findOne s (update_id uin) = Some role"
      and custom: "code role \<noteq> SUPER_ADMIN_ROLE_CODE K" "code role \<noteq> CUSTOMER_ROLE_CODE K"
      and perms: "update_permissions uin = Some ps"
      and valid: "set ps \<subseteq> set (getAllPermissions K)"
      and owner: "Permission_Owner K \<in> set ps"
  proof -
    let ?u = "patchEntity role
                \<lparr>patch_code = update_code uin, patch_description = update_description uin,
                 patch_permissions = Some (unique (Permission_Authenticated K # ps))\<rparr>"
    let ?r = "stored_row (channels role) (update_id uin) ?u"
    have id: "role_id role = Some (update_id uin)" using found by (rule findOne_id)
    then have uid: "role_id ?u = Some (update_id uin)" by (simp add: patchEntity_def)
    have after: "findOne (snd (save s ?u)) (update_id uin) = Some ?r"
      using found uid by (rule findOne_after_save)
    have "update K s uin = (Inr ?r, snd (save s ?u))"
      using accepted[OF valid] found custom perms id after
      by (simp add: update_def Let_def assertFound_def case_prod_unfold del: unique.simps)
    moreover have "Permission_Owner K \<in> set (permissions ?r)"
      using owner by (simp add: stored_row_def patchEntity_def set_unique del: unique.simps)
    ultimately show ?thesis using after by blast
  qed
  show ?thesis
    using all members excluded accepted[of ps] created updated by blast
qed

theorem owner_is_grantable_witness:
  "enum_members example_imported \<and>
   Permission_Owner example_imported \<in> set (getAllPermissions example_imported) \<and>
   Permission_Owner example_imported \<notin> set (allPermissionsExceptOwner example_imported) \<and>
   checkPermissionsAreValid example_imported (Some [''Owner'']) = Inr () \<and>
   userHasPermissionOnChannel example_store (IdNumber 1) (channel_id channel_default)
     (Permission_CreateAdministrator example_imported) = Inr True \<and>
   (\<exists>r s'. create example_imported example_store ctx_admin
              \<lparr>create_channelId = None, create_code = ''owner'',
               create_description = ''Owner role'', create_permissions = [''Owner'']\<rparr> =
              (Inr r, s') \<and>
            r \<in> set (role_table s') \<and> ''Owner'' \<in> set (permissions r)) \<and>
   (\<exists>r s'. update example_imported example_store
              \<lparr>update_id = IdNumber 3, update_code = None, update_description = None,
               update_permissions = Some [''Owner'']\<rparr> = (Inr r, s') \<and>
            findOne s' (IdNumber 3) = Some r \<and> ''Owner'' \<in> set (permissions r))"
proof -
  let ?cin = "\<lparr>create_channelId = None, create_code = ''owner'',
               create_description = ''Owner role'', create_permissions = [''Owner'']\<rparr>"
  let ?uin = "\<lparr>update_id = IdNumber 3, update_code = None, update_description = None,
               update_permissions = Some [''Owner'']\<rparr>"
  have enum: "enum_members example_imported"
    by (simp add: enum_members_def example_imported_def)
  have allowed: "userHasPermissionOnChannel example_store (IdNumber 1) (channel_id channel_default)
     (Permission_CreateAdministrator example_imported) = Inr True"
    by (simp add: service_defs example_defs)
  have found: "findOne example_store (update_id ?uin) = Some role_editor"
    by (simp add: findOne_def example_store_def role_super_admin_def role_customer_def
          role_editor_def)
  have facts: "set (create_permissions ?cin) \<subseteq> set (getAllPermissions example_imported)"
    "Permission_Owner example_imported \<in> set (create_permissions ?cin)"
    "(case present (create_channelId ?cin) of
        None \<Rightarrow> Some (channel ctx_admin)
      | Some channelId \<Rightarrow> find_Channel example_store channelId) = Some channel_default"
    "present (activeUserId ctx_admin) = Some (IdNumber 1)"
    "code role_editor \<noteq> SUPER_ADMIN_ROLE_CODE example_imported"
    "code role_editor \<noteq> CUSTOMER_ROLE_CODE example_imported"
    "update_permissions ?uin = Some [''Owner'']"
    "set [''Owner''] \<subseteq> set (getAllPermissions example_imported)"
    "Permission_Owner example_imported \<in> set [''Owner'']"
    "Permission_Owner example_imported = ''Owner''"
    by (simp_all add: getAllPermissions_def example_imported_def present_def ctx_admin_def
          role_editor_def)
  from owner_is_grantable
    [OF enum, of "[''Owner'']" ?cin ctx_admin example_store channel_default "IdNumber 1" ?uin
       role_editor]
    enum allowed found facts
  show ?thesis by simp
qed

end
